theory Spec2Isabelle
  imports Complex_Main "HOL-Library.AList"
begin

section \<open>JavaScript values\<close>

text \<open>
  The module stores and reads \<^emph>\<open>flags\<close>: dynamically typed values attached to the host's
  documents. The values that matter here are the primitive ones. A JavaScript number is
  either \<open>NaN\<close>, one of the two infinities, or a finite double; every finite double is a
  rational, and the two operations the module applies to a single number
  (\<open>Math.floor\<close>, \<open>Math.max\<close>) are exact on doubles. Finite numbers are therefore
  modelled as rationals. Two things are abstracted: the sign of zero (it cannot be
  observed through \<open>===\<close>, \<open>+\<close>, \<open>Math.floor\<close> followed by \<open>Math.max(0, _)\<close>), and
  rounding to double precision (addition of integers is exact below \<open>2^53\<close>).
  Objects, arrays, symbols and big integers are not values of the model.
\<close>

datatype jsnum = NaN | PosInf | NegInf | Fin rat

datatype jsval = Undefined | Null | Bool bool | Num jsnum | Str string

datatype js_error = TypeError

text \<open>Strict equality \<open>===\<close>: same type and same value; \<open>NaN\<close> equals nothing.\<close>

fun strict_eq :: "jsval \<Rightarrow> jsval \<Rightarrow> bool" where
  "strict_eq Undefined Undefined = True"
| "strict_eq Null Null = True"
| "strict_eq (Bool a) (Bool b) = (a = b)"
| "strict_eq (Num a) (Num b) = (a \<noteq> NaN \<and> b \<noteq> NaN \<and> a = b)"
| "strict_eq (Str s) (Str t) = (s = t)"
| "strict_eq _ _ = False"

text \<open>The operator \<open>+\<close> on two numbers.\<close>

fun js_add :: "jsnum \<Rightarrow> jsnum \<Rightarrow> jsnum" where
  "js_add NaN _ = NaN"
| "js_add _ NaN = NaN"
| "js_add PosInf NegInf = NaN"
| "js_add NegInf PosInf = NaN"
| "js_add PosInf _ = PosInf"
| "js_add _ PosInf = PosInf"
| "js_add NegInf _ = NegInf"
| "js_add _ NegInf = NegInf"
| "js_add (Fin a) (Fin b) = Fin (a + b)"

fun js_less :: "jsnum \<Rightarrow> jsnum \<Rightarrow> bool" where
  "js_less NaN _ = False"
| "js_less _ NaN = False"
| "js_less NegInf NegInf = False"
| "js_less NegInf _ = True"
| "js_less _ NegInf = False"
| "js_less PosInf _ = False"
| "js_less _ PosInf = True"
| "js_less (Fin a) (Fin b) = (a < b)"

subsection \<open>Conversion of a string to a number\<close>

text \<open>
  \<open>StringToNumber\<close> of the language standard, for strings of ASCII characters: white
  space is trimmed, the empty string is \<open>0\<close>, then comes a signed decimal literal
  (\<open>Infinity\<close>, or digits with an optional fraction and exponent) or an unsigned binary,
  octal or hexadecimal integer; anything else is \<open>NaN\<close>.
\<close>

definition StrWhiteSpaceChar :: "char \<Rightarrow> bool" where
  "StrWhiteSpaceChar c \<longleftrightarrow>
     c = CHR 0x09 \<or> c = CHR 0x0A \<or> c = CHR 0x0B \<or> c = CHR 0x0C \<or> c = CHR 0x0D \<or> c = CHR 0x20"

definition trim :: "string \<Rightarrow> string" where
  "trim s = rev (dropWhile StrWhiteSpaceChar (rev (dropWhile StrWhiteSpaceChar s)))"

definition digit_of :: "nat \<Rightarrow> char \<Rightarrow> nat option" where
  "digit_of radix c =
     (let n = (of_char c :: nat);
          v = (if 48 \<le> n \<and> n \<le> 57 then Some (n - 48)
               else if 97 \<le> n \<and> n \<le> 102 then Some (n - 87)
               else if 65 \<le> n \<and> n \<le> 70 then Some (n - 55)
               else None)
      in case v of None \<Rightarrow> None | Some d \<Rightarrow> if d < radix then Some d else None)"

fun digits_value :: "nat \<Rightarrow> nat \<Rightarrow> string \<Rightarrow> nat option" where
  "digits_value radix acc [] = Some acc"
| "digits_value radix acc (c # cs) =
     (case digit_of radix c of
        None \<Rightarrow> None
      | Some d \<Rightarrow> digits_value radix (acc * radix + d) cs)"

definition Digits :: "nat \<Rightarrow> string \<Rightarrow> nat option" where
  "Digits radix s = (if s = [] then None else digits_value radix 0 s)"

definition SignedInteger :: "string \<Rightarrow> int option" where
  "SignedInteger s =
     (case s of
        [] \<Rightarrow> None
      | c # ds \<Rightarrow>
          if c = CHR ''+'' then map_option int (Digits 10 ds)
          else if c = CHR ''-'' then map_option (\<lambda>n. - int n) (Digits 10 ds)
          else map_option int (Digits 10 s))"

definition is_exponent_indicator :: "char \<Rightarrow> bool" where
  "is_exponent_indicator c \<longleftrightarrow> c = CHR ''e'' \<or> c = CHR ''E''"

definition scale10 :: "rat \<Rightarrow> int \<Rightarrow> rat" where
  "scale10 q e = (if 0 \<le> e then q * 10 ^ nat e else q / 10 ^ nat (- e))"

definition StrUnsignedDecimalLiteral :: "string \<Rightarrow> jsnum" where
  "StrUnsignedDecimalLiteral s =
     (if s = ''Infinity'' then PosInf
      else
        let mantissa = takeWhile (\<lambda>c. \<not> is_exponent_indicator c) s;
            exponent_part = dropWhile (\<lambda>c. \<not> is_exponent_indicator c) s;
            exponent = (if exponent_part = [] then Some 0 else SignedInteger (tl exponent_part));
            int_digits = takeWhile (\<lambda>c. c \<noteq> CHR ''.'') mantissa;
            dot_part = dropWhile (\<lambda>c. c \<noteq> CHR ''.'') mantissa;
            frac_digits = (if dot_part = [] then [] else tl dot_part)
        in if int_digits = [] \<and> frac_digits = [] then NaN
           else
             case (digits_value 10 0 int_digits, digits_value 10 0 frac_digits, exponent) of
               (Some i, Some f, Some e) \<Rightarrow>
                 Fin (scale10 (of_nat i + of_nat f / 10 ^ length frac_digits) e)
             | _ \<Rightarrow> NaN)"

fun js_negate :: "jsnum \<Rightarrow> jsnum" where
  "js_negate NaN = NaN"
| "js_negate PosInf = NegInf"
| "js_negate NegInf = PosInf"
| "js_negate (Fin q) = Fin (- q)"

definition StrDecimalLiteral :: "string \<Rightarrow> jsnum" where
  "StrDecimalLiteral s =
     (case s of
        [] \<Rightarrow> NaN
      | c # cs \<Rightarrow>
          if c = CHR ''+'' then StrUnsignedDecimalLiteral cs
          else if c = CHR ''-'' then js_negate (StrUnsignedDecimalLiteral cs)
          else StrUnsignedDecimalLiteral s)"

definition NonDecimalIntegerLiteral :: "string \<Rightarrow> jsnum option" where
  "NonDecimalIntegerLiteral s =
     (case s of
        c # p # ds \<Rightarrow>
          if c \<noteq> CHR ''0'' then None
          else
            let radix = (if p = CHR ''x'' \<or> p = CHR ''X'' then Some (16::nat)
                         else if p = CHR ''o'' \<or> p = CHR ''O'' then Some 8
                         else if p = CHR ''b'' \<or> p = CHR ''B'' then Some 2
                         else None)
            in (case radix of
                  None \<Rightarrow> None
                | Some r \<Rightarrow>
                    Some (case Digits r ds of None \<Rightarrow> NaN | Some n \<Rightarrow> Fin (of_nat n)))
      | _ \<Rightarrow> None)"

definition StringToNumber :: "string \<Rightarrow> jsnum" where
  "StringToNumber s =
     (let t = trim s
      in if t = [] then Fin 0
         else case NonDecimalIntegerLiteral t of
                Some n \<Rightarrow> n
              | None \<Rightarrow> StrDecimalLiteral t)"

subsection \<open>Numeric built-ins\<close>

fun ToNumber :: "jsval \<Rightarrow> jsnum" where
  "ToNumber Undefined = NaN"
| "ToNumber Null = Fin 0"
| "ToNumber (Bool b) = (if b then Fin 1 else Fin 0)"
| "ToNumber (Num n) = n"
| "ToNumber (Str s) = StringToNumber s"

fun floor_num :: "jsnum \<Rightarrow> jsnum" where
  "floor_num (Fin q) = Fin (of_int \<lfloor>q\<rfloor>)"
| "floor_num n = n"

definition Math_floor :: "jsval \<Rightarrow> jsnum" where
  "Math_floor x = floor_num (ToNumber x)"

definition Math_max :: "jsnum \<Rightarrow> jsnum \<Rightarrow> jsnum" where
  "Math_max a b = (if a = NaN \<or> b = NaN then NaN else if js_less a b then b else a)"

section \<open>The host's documents\<close>

text \<open>
  A flag store maps a pair of scope and key to a value. A collection of documents is the
  host's \<open>Map\<close> from document id to document, in insertion order.
\<close>

type_synonym flags = "((string \<times> string) \<times> jsval) list"

record item =
  item_id :: string
  item_name :: string
  system_attunement :: jsval
  item_flags :: flags

record actor =
  actor_id :: string
  actor_name :: string
  actor_type :: string
  actor_flags :: flags
  actor_items :: "(string \<times> item) list"

record game =
  game_actors :: "(string \<times> actor) list"

text \<open>
  What a call leaves behind outside its own document: lines on the console and calls of
  the host's \<open>setFlag\<close>. A console argument built by a template literal is kept as its
  parts, the substituted values unrendered.
\<close>

datatype template_part = Lit string | Subst jsval

datatype document = ActorDocument string | ItemDocument string

datatype effect =
    ConsoleLog "template_part list list"
  | SetFlag document string string jsval

fun is_write :: "effect \<Rightarrow> bool" where
  "is_write (SetFlag _ _ _ _) = True"
| "is_write (ConsoleLog _) = False"

definition writes :: "effect list \<Rightarrow> effect list" where
  "writes es = filter is_write es"

text \<open>
  Modelled from the spec: the document/flag store of the host, \<open>get(namespace, key)\<close>
  giving the value or absent (\<open>undefined\<close>) and \<open>set(namespace, key, value)\<close> replacing
  the value under that key only, both completing before the next step.
\<close>

definition getFlag :: "flags \<Rightarrow> string \<Rightarrow> string \<Rightarrow> jsval" where
  "getFlag fs scope key = (case map_of fs (scope, key) of None \<Rightarrow> Undefined | Some v \<Rightarrow> v)"

definition setFlag :: "flags \<Rightarrow> string \<Rightarrow> string \<Rightarrow> jsval \<Rightarrow> flags" where
  "setFlag fs scope key v = AList.update (scope, key) v fs"

text \<open>
  Modelled from the spec: the ordered collection of the items a character owns, and the
  directory of the actors of the game. \<open>get\<close> gives the document stored under an id
  or nothing (\<open>undefined\<close>); \<open>filter\<close> calls the condition on every document in order
  and keeps those for which it holds, and an exception of the condition ends it.
\<close>

definition Collection_get :: "(string \<times> 'a) list \<Rightarrow> string \<Rightarrow> 'a option" where
  "Collection_get c k = map_of c k"

fun Collection_filter ::
  "('a option \<Rightarrow> js_error + bool) \<Rightarrow> (string \<times> 'a) list \<Rightarrow> js_error + 'a list" where
  "Collection_filter condition [] = Inr []"
| "Collection_filter condition ((k, v) # entries) =
     (case condition (Some v) of
        Inl e \<Rightarrow> Inl e
      | Inr keep \<Rightarrow>
          (case Collection_filter condition entries of
             Inl e \<Rightarrow> Inl e
           | Inr vs \<Rightarrow> Inr (if keep then v # vs else vs)))"

section \<open>The module class\<close>

definition ID :: string where
  "ID = ''advanced-attunement''"

definition ATTUNEMENT_WEIGHT :: string where
  "ATTUNEMENT_WEIGHT = ''attunement-weight''"

definition ATTUNEMENT_BURDEN :: string where
  "ATTUNEMENT_BURDEN = ''attunement-burden''"

definition AdvancedAttunement_log :: "template_part list list \<Rightarrow> effect list" where
  "AdvancedAttunement_log args = [ConsoleLog ([Lit ID] # [Lit ''|''] # args)]"

text \<open>
  The three predicates read a property of their argument; on a reference that is
  \<open>undefined\<close> or \<open>null\<close> (\<open>None\<close>) that read raises a \<open>TypeError\<close>.
\<close>

fun isPlayerCharacter :: "actor option \<Rightarrow> js_error + bool" where
  "isPlayerCharacter None = Inl TypeError"
| "isPlayerCharacter (Some a) = Inr (actor_type a = ''character'')"

fun isAttuned :: "item option \<Rightarrow> js_error + bool" where
  "isAttuned None = Inl TypeError"
| "isAttuned (Some i) = Inr (strict_eq (system_attunement i) (Num (Fin 2)))"

fun isAttunable :: "item option \<Rightarrow> js_error + bool" where
  "isAttunable None = Inl TypeError"
| "isAttunable (Some i) =
     (if strict_eq (system_attunement i) (Num (Fin 1)) then Inr True else isAttuned (Some i))"

section \<open>The data class for items\<close>

datatype item_data = AdvancedAttunementItemData (the_item: item)

definition DEFAULT_WEIGHT :: jsnum where
  "DEFAULT_WEIGHT = Fin 1"

definition sanitizeWeight :: "jsval \<Rightarrow> jsnum" where
  "sanitizeWeight weight =
     (if strict_eq weight Undefined then DEFAULT_WEIGHT
      else Math_max (Fin 0) (Math_floor weight))"

definition getAttunementWeight :: "item_data \<Rightarrow> jsnum" where
  "getAttunementWeight this =
     (let weight = getFlag (item_flags (the_item this)) ID ATTUNEMENT_WEIGHT
      in sanitizeWeight weight)"

definition setAttunementWeight :: "jsval \<Rightarrow> item_data \<Rightarrow> item_data \<times> effect list" where
  "setAttunementWeight weight this =
     (let sanitizedWeight = sanitizeWeight weight;
          i = the_item this
      in (AdvancedAttunementItemData
            (i\<lparr>item_flags := setFlag (item_flags i) ID ATTUNEMENT_WEIGHT (Num sanitizedWeight)\<rparr>),
          [SetFlag (ItemDocument (item_id i)) ID ATTUNEMENT_WEIGHT (Num sanitizedWeight)]))"

section \<open>The data class for actors\<close>

datatype actor_data = AdvancedAttunementActorData (the_actor: actor)

datatype 'a js_ref = JsUndefined | JsNull | JsObject 'a

definition getAttunementBurden :: "actor_data \<Rightarrow> jsval" where
  "getAttunementBurden this = getFlag (actor_flags (the_actor this)) ID ATTUNEMENT_BURDEN"

definition setAttunementBurden :: "jsval \<Rightarrow> actor_data \<Rightarrow> actor_data \<times> effect list" where
  "setAttunementBurden burden this =
     (let sanitizedBurden = Math_max (Fin 0) (Math_floor burden);
          a = the_actor this
      in (AdvancedAttunementActorData
            (a\<lparr>actor_flags := setFlag (actor_flags a) ID ATTUNEMENT_BURDEN (Num sanitizedBurden)\<rparr>),
          [SetFlag (ActorDocument (actor_id a)) ID ATTUNEMENT_BURDEN (Num sanitizedBurden)]))"

text \<open>
  The constant \<open>newBurden\<close> of \<open>updateAttunementBurden\<close>: filter the owned items by
  \<open>isAttuned\<close>, wrap each, take its weight, and add up from the left starting at \<open>0\<close>.
\<close>

definition newBurden :: "actor_data \<Rightarrow> js_error + jsnum" where
  "newBurden this =
     (case Collection_filter isAttuned (actor_items (the_actor this)) of
        Inl e \<Rightarrow> Inl e
      | Inr attuned \<Rightarrow>
          Inr (foldl js_add (Fin 0)
                 (map getAttunementWeight (map AdvancedAttunementItemData attuned))))"

definition updateAttunementBurden :: "actor_data \<Rightarrow> js_error + actor_data \<times> effect list" where
  "updateAttunementBurden this =
     (let currentBurden = getAttunementBurden this
      in case newBurden this of
           Inl e \<Rightarrow> Inl e
         | Inr new \<Rightarrow>
             if \<not> strict_eq (Num new) currentBurden then
               let message = [Lit ''Updating attunement burden of '',
                              Subst (Str (actor_name (the_actor this))),
                              Lit '': '', Subst currentBurden,
                              Lit '' -> '', Subst (Num new)];
                   (this', written) = setAttunementBurden (Num new) this
               in Inr (this', AdvancedAttunement_log [message] @ written)
             else Inr (this, []))"

definition getActor :: "game \<Rightarrow> string \<Rightarrow> js_error + actor_data js_ref" where
  "getActor g actorId =
     (case Collection_get (game_actors g) actorId of
        None \<Rightarrow> Inr JsUndefined
      | Some a \<Rightarrow>
          (case isPlayerCharacter (Some a) of
             Inl e \<Rightarrow> Inl e
           | Inr is_pc \<Rightarrow>
               if is_pc then Inr (JsObject (AdvancedAttunementActorData a))
               else Inr JsUndefined))"

definition getItem :: "actor_data \<Rightarrow> string \<Rightarrow> js_error + item_data js_ref" where
  "getItem this itemId =
     (case Collection_get (actor_items (the_actor this)) itemId of
        None \<Rightarrow> Inr JsNull
      | Some i \<Rightarrow>
          (case isAttunable (Some i) of
             Inl e \<Rightarrow> Inl e
           | Inr attunable \<Rightarrow>
               if attunable then Inr (JsObject (AdvancedAttunementItemData i))
               else Inr JsNull))"

section \<open>Vocabulary of the specification\<close>

text \<open>
  The attunement status of an item is a number of the game system: \<open>0\<close> for an item
  that cannot be attuned, \<open>1\<close> for one that requires attunement, \<open>2\<close> for one that is
  attuned.
\<close>

definition status_RequiresAttunement :: "item \<Rightarrow> bool" where
  "status_RequiresAttunement i \<longleftrightarrow> system_attunement i = Num (Fin 1)"

definition status_Attuned :: "item \<Rightarrow> bool" where
  "status_Attuned i \<longleftrightarrow> system_attunement i = Num (Fin 2)"

text \<open>The sum of a list of weights, the empty sum being \<open>0\<close>.\<close>

fun weight_sum :: "jsnum list \<Rightarrow> jsnum" where
  "weight_sum [] = Fin 0"
| "weight_sum (w # ws) = js_add w (weight_sum ws)"

text \<open>The weights of the owned items whose status is Attuned, in the order of the items.\<close>

definition attuned_weights :: "actor_data \<Rightarrow> jsnum list" where
  "attuned_weights this =
     map (\<lambda>i. getAttunementWeight (AdvancedAttunementItemData i))
       (filter status_Attuned (map snd (actor_items (the_actor this))))"


text \<open>
  The numbers a weight, and a sum of weights, can be: a non-negative integer, or one of
  \<open>NaN\<close> and \<open>Infinity\<close>, which \<open>Math.max(0, Math.floor(_))\<close> lets through.
\<close>

fun weight_like :: "jsnum \<Rightarrow> bool" where
  "weight_like NaN = True"
| "weight_like PosInf = True"
| "weight_like NegInf = False"
| "weight_like (Fin q) = (0 \<le> q \<and> of_int \<lfloor>q\<rfloor> = q)"

text \<open>
  Two calls of \<open>updateAttunementBurden\<close> in succession on the same actor, nothing
  happening in between; the effects of both calls in order.
\<close>

definition updateAttunementBurden_twice ::
  "actor_data \<Rightarrow> js_error + actor_data \<times> effect list" where
  "updateAttunementBurden_twice this =
     (case updateAttunementBurden this of
        Inl e \<Rightarrow> Inl e
      | Inr (this1, es1) \<Rightarrow>
          (case updateAttunementBurden this1 of
             Inl e \<Rightarrow> Inl e
           | Inr (this2, es2) \<Rightarrow> Inr (this2, es1 @ es2)))"

fun count_writes :: "js_error + actor_data \<times> effect list \<Rightarrow> nat" where
  "count_writes (Inl e) = 0"
| "count_writes (Inr (this, es)) = length (writes es)"

subsection \<open>Example data\<close>

definition weight_flag :: "jsval \<Rightarrow> flags" where
  "weight_flag v = [((ID, ATTUNEMENT_WEIGHT), v)]"

definition burden_flag :: "jsval \<Rightarrow> flags" where
  "burden_flag v = [((ID, ATTUNEMENT_BURDEN), v)]"

definition example_item :: "string \<Rightarrow> rat \<Rightarrow> flags \<Rightarrow> item" where
  "example_item name status fs =
     \<lparr>item_id = name, item_name = name, system_attunement = Num (Fin status),
      item_flags = fs\<rparr>"

text \<open>
  Five owned items: three attuned ones with stored weights \<open>2\<close>, \<open>1\<close> and none, one
  that requires attunement, and one that cannot be attuned.
\<close>

definition example_items :: "(string \<times> item) list" where
  "example_items =
     [(''sword'', example_item ''sword'' 2 (weight_flag (Num (Fin 2)))),
      (''wand'', example_item ''wand'' 1 (weight_flag (Num (Fin 7)))),
      (''ring'', example_item ''ring'' 2 (weight_flag (Num (Fin 1)))),
      (''rope'', example_item ''rope'' 0 []),
      (''cloak'', example_item ''cloak'' 2 [])]"

text \<open>An attuned item whose stored weight is a word instead of a number.\<close>

definition malformed_items :: "(string \<times> item) list" where
  "malformed_items = [(''idol'', example_item ''idol'' 2 (weight_flag (Str ''heavy'')))]"

definition example_actor ::
  "string \<Rightarrow> string \<Rightarrow> flags \<Rightarrow> (string \<times> item) list \<Rightarrow> actor" where
  "example_actor name type fs its =
     \<lparr>actor_id = name, actor_name = name, actor_type = type, actor_flags = fs,
      actor_items = its\<rparr>"

definition example_character :: "flags \<Rightarrow> (string \<times> item) list \<Rightarrow> actor_data" where
  "example_character fs its =
     AdvancedAttunementActorData (example_actor ''Mira'' ''character'' fs its)"

definition example_game :: game where
  "example_game =
     \<lparr>game_actors = [(''Mira'', example_actor ''Mira'' ''character'' [] example_items),
                      (''Ogre'', example_actor ''Ogre'' ''npc'' [] [])]\<rparr>"

section \<open>Properties of the built-ins and of the host\<close>

lemma strict_eq_Num_left: "strict_eq (Num n) v \<longleftrightarrow> n \<noteq> NaN \<and> v = Num n"
  by (cases v) auto

lemma strict_eq_Fin_right: "strict_eq v (Num (Fin q)) \<longleftrightarrow> v = Num (Fin q)"
  by (cases v) auto

lemma strict_eq_Undefined_right: "strict_eq v Undefined \<longleftrightarrow> v = Undefined"
  by (cases v) auto

lemma js_add_assoc: "js_add (js_add a b) c = js_add a (js_add b c)"
  by (cases a; cases b; cases c) simp_all

lemma js_add_zero_right: "js_add a (Fin 0) = a"
  by (cases a) simp_all

lemma js_add_zero_left: "js_add (Fin 0) a = a"
  by (cases a) simp_all

lemma foldl_js_add: "foldl js_add a ws = js_add a (weight_sum ws)"
  by (induction ws arbitrary: a) (simp_all add: js_add_zero_right js_add_assoc)

lemma Collection_filter_isAttuned:
  "Collection_filter isAttuned es = Inr (filter status_Attuned (map snd es))"
  by (induction es) (auto simp: status_Attuned_def strict_eq_Fin_right)

lemma weight_like_floor_max: "weight_like n \<Longrightarrow> Math_max (Fin 0) (Math_floor (Num n)) = n"
  by (cases n) (auto simp: Math_max_def Math_floor_def)

lemma weight_like_js_add: "weight_like a \<Longrightarrow> weight_like b \<Longrightarrow> weight_like (js_add a b)"
  by (cases a; cases b) (simp_all, metis of_int_add)

lemma weight_like_Math_max: "weight_like (Math_max (Fin 0) (floor_num n))"
  by (cases n) (auto simp: Math_max_def)

lemma weight_like_sanitizeWeight: "weight_like (sanitizeWeight v)"
  by (simp add: sanitizeWeight_def DEFAULT_WEIGHT_def Math_floor_def weight_like_Math_max)

lemma weight_like_weight_sum: "(\<And>w. w \<in> set ws \<Longrightarrow> weight_like w) \<Longrightarrow> weight_like (weight_sum ws)"
  by (induction ws) (auto intro: weight_like_js_add)

lemma newBurden_eq: "newBurden this = Inr (weight_sum (attuned_weights this))"
  by (simp add: newBurden_def attuned_weights_def Collection_filter_isAttuned foldl_js_add
      js_add_zero_left comp_def)

lemma newBurden_weight_like: "newBurden this = Inr n \<Longrightarrow> weight_like n"
  unfolding newBurden_eq attuned_weights_def
  by (auto intro!: weight_like_weight_sum simp: getAttunementWeight_def weight_like_sanitizeWeight)



lemma updateAttunementBurden_cases:
  assumes "newBurden this = Inr n"
  shows "updateAttunementBurden this =
     (if strict_eq (Num n) (getAttunementBurden this) then Inr (this, [])
      else Inr (AdvancedAttunementActorData
                  ((the_actor this)\<lparr>actor_flags :=
                     setFlag (actor_flags (the_actor this)) ID ATTUNEMENT_BURDEN (Num n)\<rparr>),
                [ConsoleLog [[Lit ID], [Lit ''|''],
                   [Lit ''Updating attunement burden of '',
                    Subst (Str (actor_name (the_actor this))),
                    Lit '': '', Subst (getAttunementBurden this),
                    Lit '' -> '', Subst (Num n)]],
                 SetFlag (ActorDocument (actor_id (the_actor this))) ID ATTUNEMENT_BURDEN (Num n)]))"
  using assms newBurden_weight_like [OF assms]
  by (simp add: updateAttunementBurden_def setAttunementBurden_def AdvancedAttunement_log_def weight_like_floor_max Let_def)

lemma newBurden_items:
  "actor_items (the_actor this') = actor_items (the_actor this) \<Longrightarrow> newBurden this' = newBurden this"
  by (simp add: newBurden_def)

lemma getFlag_setFlag_same: "getFlag (setFlag fs s k v) s k = v"
  by (simp add: getFlag_def setFlag_def update_conv')

lemma map_of_setFlag_other:
  "k' \<noteq> (s, k) \<Longrightarrow> map_of (setFlag fs s k v) k' = map_of fs k'"
  by (simp add: setFlag_def update_conv')

lemma updateAttunementBurden_settled:
  assumes "newBurden this = Inr n" "n \<noteq> NaN" "getAttunementBurden this = Num n"
  shows "updateAttunementBurden this = Inr (this, [])"
  using updateAttunementBurden_cases [OF assms(1)] assms(2,3) by (simp add: strict_eq_Num_left)

lemma Math_max_zero_Fin: "Math_max (Fin 0) (Fin (of_int k)) = Fin (of_int (max 0 k))"
  by (simp add: Math_max_def max_def)

lemma isAttunable_Some:
  "isAttunable (Some i) = Inr (status_RequiresAttunement i \<or> status_Attuned i)"
  by (simp add: status_RequiresAttunement_def status_Attuned_def strict_eq_Fin_right)

lemma Collection_get_Some_iff:
  "distinct (map fst c) \<Longrightarrow> Collection_get c k = Some v \<longleftrightarrow> (k, v) \<in> set c"
  by (simp add: Collection_get_def)

lemma Collection_get_None_iff: "Collection_get c k = None \<longleftrightarrow> (\<forall>v. (k, v) \<notin> set c)"
  by (auto simp: Collection_get_def map_of_eq_None_iff image_iff)

section \<open>The burden of a character\<close>





text \<open>
  C3. Two calls of \<open>updateAttunementBurden\<close> in succession, with nothing changed in
  between, on a character whose computed burden is not \<open>NaN\<close>: the second call computes
  the same burden, finds it persisted, and is a no-op (no write, no report, the actor as
  the first call left it). The two calls together write at most once: once if the
  persisted burden differed from the computed one before the first call, not at all if
  it was already persisted.
\<close>

theorem updateAttunementBurden_twice_at_most_one_write:
  assumes "newBurden this \<noteq> Inr NaN"
  shows "\<exists>n this' es. newBurden this = Inr n \<and>
           updateAttunementBurden this = Inr (this', es) \<and>
           updateAttunementBurden this' = Inr (this', []) \<and>
           updateAttunementBurden_twice this = Inr (this', es) \<and>
           length (writes es) = (if getAttunementBurden this = Num n then 0 else 1)"
proof -
  obtain n where n: "newBurden this = Inr n"
    using newBurden_eq by blast
  with assms have nn: "n \<noteq> NaN" by auto
  show ?thesis
  proof (cases "getAttunementBurden this = Num n")
    case True
    then have u: "updateAttunementBurden this = Inr (this, [])"
      using updateAttunementBurden_settled [OF n nn] by simp
    then have "updateAttunementBurden_twice this = Inr (this, [])"
      by (simp add: updateAttunementBurden_twice_def)
    with u n True show ?thesis by (simp add: writes_def)
  next
    case False
    let ?this' = "AdvancedAttunementActorData
                    ((the_actor this)\<lparr>actor_flags :=
                       setFlag (actor_flags (the_actor this)) ID ATTUNEMENT_BURDEN (Num n)\<rparr>)"
    let ?es = "[ConsoleLog [[Lit ID], [Lit ''|''],
                   [Lit ''Updating attunement burden of '',
                    Subst (Str (actor_name (the_actor this))),
                    Lit '': '', Subst (getAttunementBurden this),
                    Lit '' -> '', Subst (Num n)]],
                 SetFlag (ActorDocument (actor_id (the_actor this))) ID ATTUNEMENT_BURDEN (Num n)]"
    from False have u: "updateAttunementBurden this = Inr (?this', ?es)"
      using updateAttunementBurden_cases [OF n] by (simp add: strict_eq_Num_left)
    have n': "newBurden ?this' = Inr n"
      using n newBurden_items [of ?this' this] by simp
    have g': "getAttunementBurden ?this' = Num n"
      by (simp add: getAttunementBurden_def getFlag_setFlag_same)
    have u': "updateAttunementBurden ?this' = Inr (?this', [])"
      using updateAttunementBurden_settled [OF n' nn g'] .
    have t: "updateAttunementBurden_twice this = Inr (?this', ?es)"
      by (simp add: updateAttunementBurden_twice_def u u')
    have w: "length (writes ?es) = 1"
      by (simp add: writes_def)
    from n u u' t w False show ?thesis by auto
  qed
qed

text \<open>
  The character of the example with a persisted burden of \<open>5\<close>: the first call writes
  \<open>4\<close>, the second writes nothing.
\<close>

theorem updateAttunementBurden_twice_at_most_one_write_witness:
  "newBurden (example_character (burden_flag (Num (Fin 5))) example_items) \<noteq> Inr NaN \<and>
   count_writes
     (updateAttunementBurden_twice
        (example_character (burden_flag (Num (Fin 5))) example_items)) = 1"
proof -
  let ?c = "example_character (burden_flag (Num (Fin 5))) example_items"
  have n: "newBurden ?c = Inr (Fin 4)" by code_simp
  then have h: "newBurden ?c \<noteq> Inr NaN" by simp
  have g: "getAttunementBurden ?c \<noteq> Num (Fin 4)" by code_simp
  from updateAttunementBurden_twice_at_most_one_write [OF h] n g
  have "count_writes (updateAttunementBurden_twice ?c) = 1" by auto
  with h show ?thesis by simp
qed

text \<open>
  The number of writes of the two calls is not always one. A character without items whose
  persisted burden is already \<open>0\<close> is written zero times. A character with an attuned
  item whose stored weight is the string \<open>heavy\<close> has the burden \<open>NaN\<close>, which \<open>!==\<close>
  finds different from every persisted value, itself included: both calls write.
\<close>

theorem updateAttunementBurden_twice_counterexample:
  "updateAttunementBurden_twice (example_character (burden_flag (Num (Fin 0))) []) =
     Inr (example_character (burden_flag (Num (Fin 0))) [], []) \<and>
   count_writes
     (updateAttunementBurden_twice (example_character (burden_flag (Num (Fin 0))) [])) = 0 \<and>
   count_writes (updateAttunementBurden_twice (example_character [] malformed_items)) = 2"
  by code_simp

section \<open>The weight of an item\<close>

text \<open>
  C4. \<open>getAttunementWeight\<close> is a function of the item alone: it reads the weight flag
  and changes nothing. It gives the default weight \<open>1\<close> when no weight is stored for
  the item, and \<open>max(0, floor(q))\<close> when the stored value is, or converts to, the finite
  number \<open>q\<close>; for every stored value it is \<open>Math.max(0, Math.floor(value))\<close>.
\<close>

theorem getAttunementWeight_default_or_clamped_floor:
  "(map_of (item_flags (the_item this)) (ID, ATTUNEMENT_WEIGHT) = None \<longrightarrow>
      getAttunementWeight this = Fin 1) \<and>
   (\<forall>v q. map_of (item_flags (the_item this)) (ID, ATTUNEMENT_WEIGHT) = Some v \<and>
          ToNumber v = Fin q \<longrightarrow>
      getAttunementWeight this = Fin (of_int (max 0 \<lfloor>q\<rfloor>))) \<and>
   (\<forall>v. map_of (item_flags (the_item this)) (ID, ATTUNEMENT_WEIGHT) = Some v \<and>
        v \<noteq> Undefined \<longrightarrow>
      getAttunementWeight this = Math_max (Fin 0) (Math_floor v))"
proof -
  have "sanitizeWeight v = Fin (of_int (max 0 \<lfloor>q\<rfloor>))" if "ToNumber v = Fin q" for v q
  proof -
    from that have "v \<noteq> Undefined" by auto
    with that show ?thesis
      by (simp add: sanitizeWeight_def strict_eq_Undefined_right Math_floor_def Math_max_zero_Fin)
  qed
  then show ?thesis
    by (simp add: getAttunementWeight_def getFlag_def sanitizeWeight_def DEFAULT_WEIGHT_def
        strict_eq_Undefined_right)
qed

text \<open>No stored weight gives \<open>1\<close>, a stored \<open>-2.7\<close> gives \<open>0\<close>, a stored \<open>3.9\<close> gives \<open>3\<close>.\<close>

theorem getAttunementWeight_default_or_clamped_floor_witness:
  "getAttunementWeight (AdvancedAttunementItemData (example_item ''cloak'' 2 [])) = Fin 1 \<and>
   getAttunementWeight
     (AdvancedAttunementItemData (example_item ''anvil'' 2 (weight_flag (Num (Fin (- 2.7)))))) =
     Fin 0 \<and>
   getAttunementWeight
     (AdvancedAttunementItemData (example_item ''staff'' 2 (weight_flag (Num (Fin 3.9))))) =
     Fin 3"
proof -
  let ?cloak = "AdvancedAttunementItemData (example_item ''cloak'' 2 [])"
  let ?anvil = "AdvancedAttunementItemData (example_item ''anvil'' 2 (weight_flag (Num (Fin (- 2.7)))))"
  let ?staff = "AdvancedAttunementItemData (example_item ''staff'' 2 (weight_flag (Num (Fin 3.9))))"
  have c: "map_of (item_flags (the_item ?cloak)) (ID, ATTUNEMENT_WEIGHT) = None"
    by (simp add: example_item_def)
  have a: "map_of (item_flags (the_item ?anvil)) (ID, ATTUNEMENT_WEIGHT) = Some (Num (Fin (- 2.7)))"
    by (simp add: example_item_def weight_flag_def)
  have s: "map_of (item_flags (the_item ?staff)) (ID, ATTUNEMENT_WEIGHT) = Some (Num (Fin 3.9))"
    by (simp add: example_item_def weight_flag_def)
  have fa: "max 0 \<lfloor>- 2.7 :: rat\<rfloor> = 0" and fs: "max 0 \<lfloor>3.9 :: rat\<rfloor> = 3"
    by code_simp+
  have "getAttunementWeight ?cloak = Fin 1"
    using getAttunementWeight_default_or_clamped_floor [of ?cloak] c by blast
  moreover have "getAttunementWeight ?anvil = Fin (of_int (max 0 \<lfloor>- 2.7 :: rat\<rfloor>))"
    by (rule getAttunementWeight_default_or_clamped_floor
          [of ?anvil, THEN conjunct2, THEN conjunct1, rule_format, of "Num (Fin (- 2.7))"])
       (rule conjI, rule a, rule ToNumber.simps)
  moreover have "getAttunementWeight ?staff = Fin (of_int (max 0 \<lfloor>3.9 :: rat\<rfloor>))"
    by (rule getAttunementWeight_default_or_clamped_floor
          [of ?staff, THEN conjunct2, THEN conjunct1, rule_format, of "Num (Fin 3.9)"])
       (rule conjI, rule s, rule ToNumber.simps)
  ultimately show ?thesis
    by (simp only: fa fs) simp
qed




section \<open>Lookups\<close>

text \<open>
  C6. In a collection of owned items with one entry per id (the host's \<open>Map\<close>),
  \<open>getItem\<close> returns an item record exactly when an item is owned under the given id
  and its status is RequiresAttunement or Attuned, and the record wraps that item. For
  every other id, not owned or owned by an item that cannot be attuned, it returns
  \<open>null\<close>. It never raises an error.
\<close>

theorem getItem_record_iff_owned_and_attunable:
  assumes "distinct (map fst (actor_items (the_actor this)))"
  shows "(\<forall>r. getItem this itemId = Inr (JsObject r) \<longleftrightarrow>
            (\<exists>i. (itemId, i) \<in> set (actor_items (the_actor this)) \<and>
                 (status_RequiresAttunement i \<or> status_Attuned i) \<and>
                 r = AdvancedAttunementItemData i)) \<and>
         ((\<nexists>i. (itemId, i) \<in> set (actor_items (the_actor this)) \<and>
               (status_RequiresAttunement i \<or> status_Attuned i)) \<longrightarrow>
            getItem this itemId = Inr JsNull) \<and>
         (\<forall>e. getItem this itemId \<noteq> Inl e)"
proof (cases "Collection_get (actor_items (the_actor this)) itemId")
  case None
  then have "getItem this itemId = Inr JsNull"
    by (simp add: getItem_def)
  with None show ?thesis
    by (auto simp: Collection_get_None_iff)
next
  case (Some i)
  then have g: "getItem this itemId =
      (if status_RequiresAttunement i \<or> status_Attuned i
       then Inr (JsObject (AdvancedAttunementItemData i)) else Inr JsNull)"
    by (simp add: getItem_def isAttunable_Some del: isAttunable.simps)
  from Some assms have m: "(itemId, j) \<in> set (actor_items (the_actor this)) \<longleftrightarrow> j = i" for j
    using Collection_get_Some_iff [OF assms, of itemId j] by auto
  show ?thesis
    unfolding g m by auto
qed

text \<open>
  The character of the example owns a wand that requires attunement and a rope that
  cannot be attuned, and owns nothing under the id \<open>ghost\<close>.
\<close>

theorem getItem_record_iff_owned_and_attunable_witness:
  "distinct (map fst (actor_items (the_actor (example_character [] example_items)))) \<and>
   getItem (example_character [] example_items) ''wand'' =
     Inr (JsObject (AdvancedAttunementItemData
            (example_item ''wand'' 1 (weight_flag (Num (Fin 7)))))) \<and>
   getItem (example_character [] example_items) ''rope'' = Inr JsNull \<and>
   getItem (example_character [] example_items) ''ghost'' = Inr JsNull"
proof -
  let ?c = "example_character [] example_items"
  let ?wand = "example_item ''wand'' 1 (weight_flag (Num (Fin 7)))"
  have d: "distinct (map fst (actor_items (the_actor ?c)))"
    by code_simp
  have its: "actor_items (the_actor ?c) = example_items"
    by (simp add: example_character_def example_actor_def)
  have w: "(''wand'', ?wand) \<in> set (actor_items (the_actor ?c))"
    unfolding its by (simp add: example_items_def)
  have sw: "status_RequiresAttunement ?wand"
    by (simp add: status_RequiresAttunement_def example_item_def)
  have r: "\<nexists>i. (''rope'', i) \<in> set (actor_items (the_actor ?c)) \<and>
        (status_RequiresAttunement i \<or> status_Attuned i)"
    unfolding its
    by (auto simp: example_items_def example_item_def status_RequiresAttunement_def
        status_Attuned_def)
  have g: "\<nexists>i. (''ghost'', i) \<in> set (actor_items (the_actor ?c)) \<and>
        (status_RequiresAttunement i \<or> status_Attuned i)"
    unfolding its by (auto simp: example_items_def)
  have "getItem ?c ''wand'' = Inr (JsObject (AdvancedAttunementItemData ?wand))"
    using getItem_record_iff_owned_and_attunable [OF d, of "''wand''"] w sw by blast
  moreover have "getItem ?c ''rope'' = Inr JsNull"
    using getItem_record_iff_owned_and_attunable [OF d, of "''rope''"] r by blast
  moreover have "getItem ?c ''ghost'' = Inr JsNull"
    using getItem_record_iff_owned_and_attunable [OF d, of "''ghost''"] g by blast
  ultimately show ?thesis
    using d by simp
qed

text \<open>
  C7. In a directory of actors with one entry per id, \<open>getActor\<close> returns an actor
  record exactly when an actor exists under the given id and its type is
  \<open>character\<close>, and the record wraps that actor. For a missing id and for an actor of
  another type it returns \<open>undefined\<close>. It never raises an error.
\<close>

theorem getActor_record_iff_character:
  assumes "distinct (map fst (game_actors g))"
  shows "(\<forall>r. getActor g actorId = Inr (JsObject r) \<longleftrightarrow>
            (\<exists>a. (actorId, a) \<in> set (game_actors g) \<and> actor_type a = ''character'' \<and>
                 r = AdvancedAttunementActorData a)) \<and>
         ((\<nexists>a. (actorId, a) \<in> set (game_actors g) \<and> actor_type a = ''character'') \<longrightarrow>
            getActor g actorId = Inr JsUndefined) \<and>
         (\<forall>e. getActor g actorId \<noteq> Inl e)"
proof (cases "Collection_get (game_actors g) actorId")
  case None
  then have "getActor g actorId = Inr JsUndefined"
    by (simp add: getActor_def)
  with None show ?thesis
    by (auto simp: Collection_get_None_iff)
next
  case (Some a)
  then have r: "getActor g actorId =
      (if actor_type a = ''character''
       then Inr (JsObject (AdvancedAttunementActorData a)) else Inr JsUndefined)"
    by (simp add: getActor_def)
  from Some assms have m: "(actorId, b) \<in> set (game_actors g) \<longleftrightarrow> b = a" for b
    using Collection_get_Some_iff [OF assms, of actorId b] by auto
  show ?thesis
    unfolding r m by auto
qed

text \<open>
  The game of the example has the character Mira and the non-player character Ogre, and
  nobody under the id \<open>Nobody\<close>.
\<close>

theorem getActor_record_iff_character_witness:
  "distinct (map fst (game_actors example_game)) \<and>
   getActor example_game ''Mira'' = Inr (JsObject (example_character [] example_items)) \<and>
   getActor example_game ''Ogre'' = Inr JsUndefined \<and>
   getActor example_game ''Nobody'' = Inr JsUndefined"
proof -
  have d: "distinct (map fst (game_actors example_game))"
    by code_simp
  have m: "(''Mira'', example_actor ''Mira'' ''character'' [] example_items)
      \<in> set (game_actors example_game)"
    by (simp add: example_game_def)
  have t: "actor_type (example_actor ''Mira'' ''character'' [] example_items) = ''character''"
    by (simp add: example_actor_def)
  have o: "\<nexists>a. (''Ogre'', a) \<in> set (game_actors example_game) \<and> actor_type a = ''character''"
    by (auto simp: example_game_def example_actor_def)
  have n: "\<nexists>a. (''Nobody'', a) \<in> set (game_actors example_game) \<and> actor_type a = ''character''"
    by (auto simp: example_game_def)
  have "getActor example_game ''Mira'' = Inr (JsObject (example_character [] example_items))"
    unfolding example_character_def
    using getActor_record_iff_character [OF d, of "''Mira''"] m t by blast
  moreover have "getActor example_game ''Ogre'' = Inr JsUndefined"
    using getActor_record_iff_character [OF d, of "''Ogre''"] o by blast
  moreover have "getActor example_game ''Nobody'' = Inr JsUndefined"
    using getActor_record_iff_character [OF d, of "''Nobody''"] n by blast
  ultimately show ?thesis
    using d by simp
qed

section \<open>Reading and writing the burden\<close>

text \<open>
  C8. \<open>getAttunementBurden\<close> returns the value stored under the burden key of the
  actor as it is, whatever it is, without flooring, clamping or a default: with nothing
  stored the result is \<open>undefined\<close>. It is a function of the actor alone and changes
  nothing, so a burden that is absent stays absent until a write; after
  \<open>setAttunementBurden\<close> it returns the value that call stored.
\<close>

theorem getAttunementBurden_verbatim:
  "(\<forall>v. map_of (actor_flags (the_actor this)) (ID, ATTUNEMENT_BURDEN) = Some v \<longrightarrow>
        getAttunementBurden this = v) \<and>
   (map_of (actor_flags (the_actor this)) (ID, ATTUNEMENT_BURDEN) = None \<longrightarrow>
        getAttunementBurden this = Undefined) \<and>
   (\<forall>b. getAttunementBurden (fst (setAttunementBurden b this)) =
        Num (Math_max (Fin 0) (Math_floor b)))"
  by (simp add: getAttunementBurden_def getFlag_def setAttunementBurden_def setFlag_def
      update_conv' Let_def)

text \<open>
  Nothing stored reads as \<open>undefined\<close>; a stored \<open>-2.7\<close> and a stored string are read
  back unchanged, where the weight of an item would have been clamped.
\<close>

theorem getAttunementBurden_verbatim_witness:
  "getAttunementBurden (example_character [] example_items) = Undefined \<and>
   getAttunementBurden (example_character (burden_flag (Num (Fin (- 2.7)))) example_items) =
     Num (Fin (- 2.7)) \<and>
   getAttunementBurden (example_character (burden_flag (Str ''heavy'')) example_items) =
     Str ''heavy''"
proof -
  have f: "actor_flags (the_actor (example_character fs its)) = fs" for fs its
    by (simp add: example_character_def example_actor_def)
  have n: "map_of ([] :: flags) (ID, ATTUNEMENT_BURDEN) = None"
    by simp
  have s: "map_of (burden_flag v) (ID, ATTUNEMENT_BURDEN) = Some v" for v
    by (simp add: burden_flag_def)
  show ?thesis
    using getAttunementBurden_verbatim [of "example_character [] example_items"]
      getAttunementBurden_verbatim
        [of "example_character (burden_flag (Num (Fin (- 2.7)))) example_items"]
      getAttunementBurden_verbatim
        [of "example_character (burden_flag (Str ''heavy'')) example_items"]
    unfolding f n s by blast
qed

text \<open>
  C9. On a character with no burden stored, \<open>updateAttunementBurden\<close> always writes:
  the computed burden is a number, and no number is \<open>===\<close> to \<open>undefined\<close>. It reports
  the transition from \<open>undefined\<close>, writes the computed burden once, and that burden is
  what is read afterwards. With no attuned item the value written is \<open>0\<close>.
\<close>

theorem updateAttunementBurden_first_write:
  assumes "map_of (actor_flags (the_actor this)) (ID, ATTUNEMENT_BURDEN) = None"
  shows "\<exists>n this'. newBurden this = Inr n \<and>
           this' = AdvancedAttunementActorData
                     ((the_actor this)\<lparr>actor_flags :=
                        setFlag (actor_flags (the_actor this)) ID ATTUNEMENT_BURDEN (Num n)\<rparr>) \<and>
           updateAttunementBurden this =
             Inr (this',
                  [ConsoleLog [[Lit ID], [Lit ''|''],
                     [Lit ''Updating attunement burden of '',
                      Subst (Str (actor_name (the_actor this))),
                      Lit '': '', Subst Undefined, Lit '' -> '', Subst (Num n)]],
                   SetFlag (ActorDocument (actor_id (the_actor this))) ID ATTUNEMENT_BURDEN
                     (Num n)]) \<and>
           getAttunementBurden this' = Num n \<and>
           (attuned_weights this = [] \<longrightarrow> n = Fin 0)"
proof -
  have n: "newBurden this = Inr (weight_sum (attuned_weights this))"
    by (rule newBurden_eq)
  from assms have g: "getAttunementBurden this = Undefined"
    by (simp add: getAttunementBurden_def getFlag_def)
  have u: "updateAttunementBurden this =
      Inr (AdvancedAttunementActorData
             ((the_actor this)\<lparr>actor_flags :=
                setFlag (actor_flags (the_actor this)) ID ATTUNEMENT_BURDEN
                  (Num (weight_sum (attuned_weights this)))\<rparr>),
           [ConsoleLog [[Lit ID], [Lit ''|''],
              [Lit ''Updating attunement burden of '',
               Subst (Str (actor_name (the_actor this))),
               Lit '': '', Subst Undefined,
               Lit '' -> '', Subst (Num (weight_sum (attuned_weights this)))]],
            SetFlag (ActorDocument (actor_id (the_actor this))) ID ATTUNEMENT_BURDEN
              (Num (weight_sum (attuned_weights this)))])"
    using updateAttunementBurden_cases [OF n] by (simp add: g)
  have r: "getAttunementBurden
             (AdvancedAttunementActorData
                ((the_actor this)\<lparr>actor_flags :=
                   setFlag (actor_flags (the_actor this)) ID ATTUNEMENT_BURDEN (Num m)\<rparr>)) =
           Num m" for m
    by (simp add: getAttunementBurden_def getFlag_setFlag_same)
  from n u r show ?thesis
    by simp
qed

text \<open>The first update of a character without items and without a stored burden writes \<open>0\<close>.\<close>

theorem updateAttunementBurden_first_write_witness:
  "map_of (actor_flags (the_actor (example_character [] []))) (ID, ATTUNEMENT_BURDEN) = None \<and>
   updateAttunementBurden (example_character [] []) =
     Inr (example_character (burden_flag (Num (Fin 0))) [],
          [ConsoleLog [[Lit ''advanced-attunement''], [Lit ''|''],
             [Lit ''Updating attunement burden of '', Subst (Str ''Mira''),
              Lit '': '', Subst Undefined, Lit '' -> '', Subst (Num (Fin 0))]],
           SetFlag (ActorDocument ''Mira'') ''advanced-attunement'' ''attunement-burden''
             (Num (Fin 0))])"
proof -
  let ?c = "example_character [] []"
  have h: "map_of (actor_flags (the_actor ?c)) (ID, ATTUNEMENT_BURDEN) = None"
    by (simp add: example_character_def example_actor_def)
  have e: "attuned_weights ?c = []"
    by (simp add: attuned_weights_def example_character_def example_actor_def)
  have a: "actor_name (the_actor ?c) = ''Mira''" "actor_id (the_actor ?c) = ''Mira''"
    by (simp_all add: example_character_def example_actor_def)
  have s: "AdvancedAttunementActorData
             ((the_actor ?c)\<lparr>actor_flags :=
                setFlag (actor_flags (the_actor ?c)) ID ATTUNEMENT_BURDEN (Num (Fin 0))\<rparr>) =
           example_character (burden_flag (Num (Fin 0))) []"
    by code_simp
  have u: "updateAttunementBurden ?c =
     Inr (example_character (burden_flag (Num (Fin 0))) [],
          [ConsoleLog [[Lit ID], [Lit ''|''],
             [Lit ''Updating attunement burden of '', Subst (Str ''Mira''),
              Lit '': '', Subst Undefined, Lit '' -> '', Subst (Num (Fin 0))]],
           SetFlag (ActorDocument ''Mira'') ID ATTUNEMENT_BURDEN (Num (Fin 0))])"
    using updateAttunementBurden_first_write [OF h] by (auto simp: e a s)
  show ?thesis
    using h u by (simp add: ID_def ATTUNEMENT_BURDEN_def)
qed

text \<open>
  C10. \<open>updateAttunementBurden\<close> changes at most the burden flag of the actor: the owned
  items, with their flags, and the id, name and type of the actor are as before, every
  flag of the actor under another key is as before, and the only call of \<open>setFlag\<close>, if
  there is one, is on the actor under the burden key. The flooring and clamping of
  \<open>setAttunementBurden\<close> leaves the computed sum as it is, so the value written, and read
  afterwards, is that sum.
\<close>

theorem updateAttunementBurden_frame:
  assumes "updateAttunementBurden this = Inr (this', es)"
  shows "actor_items (the_actor this') = actor_items (the_actor this) \<and>
         actor_id (the_actor this') = actor_id (the_actor this) \<and>
         actor_name (the_actor this') = actor_name (the_actor this) \<and>
         actor_type (the_actor this') = actor_type (the_actor this) \<and>
         (\<forall>k. k \<noteq> (ID, ATTUNEMENT_BURDEN) \<longrightarrow>
              map_of (actor_flags (the_actor this')) k = map_of (actor_flags (the_actor this)) k) \<and>
         (\<exists>n. newBurden this = Inr n \<and> Math_max (Fin 0) (Math_floor (Num n)) = n \<and>
              (writes es = [] \<and> this' = this \<or>
               writes es =
                 [SetFlag (ActorDocument (actor_id (the_actor this))) ID ATTUNEMENT_BURDEN
                    (Num n)] \<and>
               getAttunementBurden this' = Num n))"
proof -
  let ?n = "weight_sum (attuned_weights this)"
  have n: "newBurden this = Inr ?n"
    by (rule newBurden_eq)
  have s: "Math_max (Fin 0) (Math_floor (Num ?n)) = ?n"
    using newBurden_weight_like [OF n] by (rule weight_like_floor_max)
  show ?thesis
  proof (cases "strict_eq (Num ?n) (getAttunementBurden this)")
    case True
    with assms updateAttunementBurden_cases [OF n] have "this' = this" "es = []"
      by simp_all
    with n s show ?thesis
      by (simp add: writes_def)
  next
    case False
    with assms updateAttunementBurden_cases [OF n]
    have t: "this' = AdvancedAttunementActorData
                ((the_actor this)\<lparr>actor_flags :=
                   setFlag (actor_flags (the_actor this)) ID ATTUNEMENT_BURDEN (Num ?n)\<rparr>)"
      and e: "writes es =
                [SetFlag (ActorDocument (actor_id (the_actor this))) ID ATTUNEMENT_BURDEN
                   (Num ?n)]"
      by (auto simp: writes_def)
    have f: "\<forall>k. k \<noteq> (ID, ATTUNEMENT_BURDEN) \<longrightarrow>
        map_of (actor_flags (the_actor this')) k = map_of (actor_flags (the_actor this)) k"
      by (simp add: t map_of_setFlag_other)
    have g: "getAttunementBurden this' = Num ?n"
      by (simp add: t getAttunementBurden_def getFlag_setFlag_same)
    from n s e f g show ?thesis
      by (simp add: t)
  qed
qed

text \<open>
  The update of the character of the example from a stored burden of \<open>5\<close>: the items
  and the weight key of the actor are untouched.
\<close>

theorem updateAttunementBurden_frame_witness:
  "updateAttunementBurden (example_character (burden_flag (Num (Fin 5))) example_items) =
     Inr (example_character (burden_flag (Num (Fin 4))) example_items,
          [ConsoleLog [[Lit ID], [Lit ''|''],
             [Lit ''Updating attunement burden of '', Subst (Str ''Mira''),
              Lit '': '', Subst (Num (Fin 5)), Lit '' -> '', Subst (Num (Fin 4))]],
           SetFlag (ActorDocument ''Mira'') ID ATTUNEMENT_BURDEN (Num (Fin 4))]) \<and>
   actor_items (the_actor (example_character (burden_flag (Num (Fin 4))) example_items)) =
     actor_items (the_actor (example_character (burden_flag (Num (Fin 5))) example_items)) \<and>
   map_of (actor_flags (the_actor (example_character (burden_flag (Num (Fin 4))) example_items)))
       (ID, ATTUNEMENT_WEIGHT) =
     map_of (actor_flags (the_actor (example_character (burden_flag (Num (Fin 5))) example_items)))
       (ID, ATTUNEMENT_WEIGHT)"
proof -
  let ?c4 = "example_character (burden_flag (Num (Fin 4))) example_items"
  let ?c5 = "example_character (burden_flag (Num (Fin 5))) example_items"
  let ?es = "[ConsoleLog [[Lit ID], [Lit ''|''],
             [Lit ''Updating attunement burden of '', Subst (Str ''Mira''),
              Lit '': '', Subst (Num (Fin 5)), Lit '' -> '', Subst (Num (Fin 4))]],
           SetFlag (ActorDocument ''Mira'') ID ATTUNEMENT_BURDEN (Num (Fin 4))]"
  have u: "updateAttunementBurden ?c5 = Inr (?c4, ?es)"
    by code_simp
  have k: "(ID, ATTUNEMENT_WEIGHT) \<noteq> (ID, ATTUNEMENT_BURDEN)"
    by code_simp
  show ?thesis
    using updateAttunementBurden_frame [OF u] u k by blast
qed

end
